theory Spec2Isabelle
  imports Complex_Main
begin

section \<open>Data model (core/types.go)\<close>

text \<open>
  Instants (\<open>time.Time\<close>) and durations (\<open>time.Duration\<close>, an \<open>int64\<close>) are counted
  in nanoseconds and modelled as integers. The \<open>float64\<close> fields and intermediate
  values of the strategies are modelled as real numbers: the arithmetic is the exact
  one, without rounding, infinities or NaN, so the model follows the source where
  \<open>Limit\<close> and \<open>Interval\<close> are not zero. The concrete inputs evaluated below are
  chosen so that the \<open>float64\<close> operations behind the fields that are compared
  are exact. The statements about all states and configurations are kept to what
  rounding to nearest cannot change: they compare values through \<open>\<le>\<close>, which
  rounding preserves, and where a sum has to stay clear of a threshold they bound the
  burst and leave a margin far wider than the spacing of \<open>float64\<close> values there.
  The lock of the limiter is not modelled: a call is a function from the world before
  it to the world after it.
\<close>

type_synonym time = int
type_synonym duration = int
type_synonym error = string

record Config =
  Limit :: int
  Interval :: duration
  Burst :: int

record State =
  Tokens :: real
  LastUpdate :: time
  Created :: time

record Decision =
  Allowed :: bool
  Remaining :: int
  ResetTime :: time
  RetryAfter :: duration

text \<open>The zero value \<open>Decision{}\<close> returned next to every error.\<close>

definition Decision_zero :: Decision where
  "Decision_zero = \<lparr>Allowed = False, Remaining = 0, ResetTime = 0, RetryAfter = 0\<rparr>"

subsection \<open>Conversions and the time package\<close>

definition maxDuration :: duration where
  "maxDuration = 2 ^ 63 - 1"

definition minDuration :: duration where
  "minDuration = - (2 ^ 63)"

text \<open>\<open>t.Sub(u)\<close>: the difference, saturated to the range of a \<open>Duration\<close>.\<close>

definition Sub :: "time \<Rightarrow> time \<Rightarrow> duration" where
  "Sub t u =
     (let d = t - u
      in if d > maxDuration then maxDuration
         else if d < minDuration then minDuration
         else d)"

text \<open>\<open>t.Add(d)\<close>.\<close>

definition Add :: "time \<Rightarrow> duration \<Rightarrow> time" where
  "Add t d = t + d"

definition maxInt64 :: int where
  "maxInt64 = 2 ^ 63 - 1"

definition minInt64 :: int where
  "minInt64 = - (2 ^ 63)"

text \<open>
  The conversions \<open>int64(x)\<close> and \<open>time.Duration(x)\<close> of a \<open>float64\<close>: the fraction is
  discarded (truncation towards zero). For a value outside the range of \<open>int64\<close> Go
  leaves the result to the implementation; the model takes the result of the amd64
  conversion instruction, the smallest \<open>int64\<close>.
\<close>

definition int64_of_float :: "real \<Rightarrow> int" where
  "int64_of_float x =
     (let n = (if 0 \<le> x then \<lfloor>x\<rfloor> else \<lceil>x\<rceil>)
      in if minInt64 \<le> n \<and> n \<le> maxInt64 then n else minInt64)"

section \<open>Token bucket (strategy/tokenbucket)\<close>

text \<open>The refill term and the credits available at \<open>now\<close>, common to
  \<open>Calculate\<close> and \<open>Preview\<close>.\<close>

definition tb_tokensToAdd :: "Config \<Rightarrow> State \<Rightarrow> time \<Rightarrow> real" where
  "tb_tokensToAdd c s now =
     (let elapsed = Sub now (LastUpdate s)
      in real_of_int elapsed / real_of_int (Interval c) * real_of_int (Limit c))"

definition tb_newTokens :: "Config \<Rightarrow> State \<Rightarrow> time \<Rightarrow> real" where
  "tb_newTokens c s now = min (Tokens s + tb_tokensToAdd c s now) (real_of_int (Burst c))"

definition tb_Calculate :: "Config \<Rightarrow> State \<Rightarrow> time \<Rightarrow> (Decision \<times> error option) \<times> State" where
  "tb_Calculate c s now =
     (let newTokens = tb_newTokens c s now;
          allowed = (newTokens \<ge> 1);
          remaining = (if allowed then int64_of_float (newTokens - 1)
                       else int64_of_float newTokens);
          retryAfter = (if allowed then 0
                        else int64_of_float
                               ((1 - newTokens) / real_of_int (Limit c) * real_of_int (Interval c)));
          s1 = (if allowed then s\<lparr>Tokens := newTokens - 1\<rparr> else s);
          s2 = s1\<lparr>LastUpdate := now\<rparr>;
          resetTime = Add now (int64_of_float
                       ((real_of_int (Burst c) - newTokens) / real_of_int (Limit c)
                          * real_of_int (Interval c)))
      in ((\<lparr>Allowed = allowed, Remaining = remaining,
             ResetTime = resetTime, RetryAfter = retryAfter\<rparr>, None), s2))"

definition tb_Preview :: "Config \<Rightarrow> State \<Rightarrow> time \<Rightarrow> (Decision \<times> error option) \<times> State" where
  "tb_Preview c s now =
     (let newTokens = tb_newTokens c s now;
          allowed = (newTokens \<ge> 1);
          retryAfter = (if \<not> allowed
                        then int64_of_float
                               ((1 - newTokens) / real_of_int (Limit c) * real_of_int (Interval c))
                        else 0);
          remaining = int64_of_float newTokens;
          resetTime = Add now (int64_of_float
                       ((real_of_int (Burst c) - newTokens) / real_of_int (Limit c)
                          * real_of_int (Interval c)))
      in ((\<lparr>Allowed = allowed, Remaining = remaining,
             ResetTime = resetTime, RetryAfter = retryAfter\<rparr>, None), s))"

section \<open>Leaky bucket (strategy/leakybucket)\<close>

definition leakRate :: "Config \<Rightarrow> real" where
  "leakRate c = real_of_int (Limit c) / real_of_int (Interval c)"

definition lb_newLevel :: "Config \<Rightarrow> State \<Rightarrow> time \<Rightarrow> real" where
  "lb_newLevel c s now =
     (let elapsed = Sub now (LastUpdate s);
          leakedTokens = leakRate c * real_of_int elapsed;
          newLevel = Tokens s - leakedTokens
      in if newLevel < 0 then 0 else newLevel)"

definition lb_Calculate :: "Config \<Rightarrow> State \<Rightarrow> time \<Rightarrow> (Decision \<times> error option) \<times> State" where
  "lb_Calculate c s now =
     (let newLevel = lb_newLevel c s now;
          allowed = (newLevel + 1 \<le> real_of_int (Burst c));
          remaining = (if allowed then int64_of_float (real_of_int (Burst c) - (newLevel + 1))
                       else int64_of_float (real_of_int (Burst c) - newLevel));
          retryAfter = (if allowed then 0 else int64_of_float (1 / leakRate c));
          s1 = (if allowed then s\<lparr>Tokens := newLevel + 1\<rparr> else s);
          s2 = s1\<lparr>LastUpdate := now\<rparr>;
          resetTime = Add now (int64_of_float (newLevel / leakRate c))
      in ((\<lparr>Allowed = allowed, Remaining = remaining,
             ResetTime = resetTime, RetryAfter = retryAfter\<rparr>, None), s2))"

definition lb_Preview :: "Config \<Rightarrow> State \<Rightarrow> time \<Rightarrow> (Decision \<times> error option) \<times> State" where
  "lb_Preview c s now =
     (let newLevel = lb_newLevel c s now;
          allowed = (newLevel + 1 \<le> real_of_int (Burst c));
          retryAfter = (if \<not> allowed then int64_of_float (1 / leakRate c) else 0);
          remaining = int64_of_float (real_of_int (Burst c) - newLevel);
          resetTime = Add now (int64_of_float (newLevel / leakRate c))
      in ((\<lparr>Allowed = allowed, Remaining = remaining,
             ResetTime = resetTime, RetryAfter = retryAfter\<rparr>, None), s))"

section \<open>The Strategy interface and its two implementations\<close>

text \<open>
  Each strategy value carries its own copy of the configuration (the field
  \<open>config\<close> set by \<open>NewStrategy\<close>). A method receives the state through a pointer;
  the model returns the state as the method leaves it.
\<close>

datatype Strategy = TokenBucket Config | LeakyBucket Config

fun Strategy_Calculate :: "Strategy \<Rightarrow> State \<Rightarrow> time \<Rightarrow> (Decision \<times> error option) \<times> State" where
  "Strategy_Calculate (TokenBucket c) s now = tb_Calculate c s now"
| "Strategy_Calculate (LeakyBucket c) s now = lb_Calculate c s now"

fun Strategy_Preview :: "Strategy \<Rightarrow> State \<Rightarrow> time \<Rightarrow> (Decision \<times> error option) \<times> State" where
  "Strategy_Preview (TokenBucket c) s now = tb_Preview c s now"
| "Strategy_Preview (LeakyBucket c) s now = lb_Preview c s now"

fun Strategy_config :: "Strategy \<Rightarrow> Config" where
  "Strategy_config (TokenBucket c) = c"
| "Strategy_config (LeakyBucket c) = c"

section \<open>Backend, metrics and the Limiter (core/limiter.go)\<close>

text \<open>
  A backend is an object with hidden state of some type \<open>'s\<close>; each of its methods
  returns its results together with the backend state it leaves behind.
\<close>

record 's Backend =
  backend_Get :: "'s \<Rightarrow> string \<Rightarrow> (State option \<times> error option) \<times> 's"
  backend_Set :: "'s \<Rightarrow> string \<Rightarrow> State \<Rightarrow> error option \<times> 's"
  backend_Delete :: "'s \<Rightarrow> string \<Rightarrow> error option \<times> 's"

datatype MetricsEvent =
  RecordGrant string bool int
| RecordPreview string int
| RecordClear string

record 's Limiter =
  backend :: "'s Backend"
  strategy :: Strategy
  config :: Config
  metrics :: bool

text \<open>
  What a call can change: the backend's state and the calls received by the metrics
  reporter. \<open>metrics l\<close> tells whether the limiter has a reporter (\<open>l.metrics != nil\<close>).
\<close>

record 's World =
  store :: 's
  recorded :: "MetricsEvent list"

text \<open>The state built for a key the backend does not know.\<close>

definition fresh_State :: "Config \<Rightarrow> time \<Rightarrow> State" where
  "fresh_State c t = \<lparr>Tokens = real_of_int (Burst c), LastUpdate = t, Created = t\<rparr>"

text \<open>
  \<open>Grant\<close> and \<open>Preview\<close> read the clock twice: \<open>t0\<close> is the reading used for a
  key without state, \<open>now\<close> the reading handed to the strategy.
\<close>

definition Grant ::
  "'s Limiter \<Rightarrow> string \<Rightarrow> time \<Rightarrow> time \<Rightarrow> 's World \<Rightarrow> (Decision \<times> error option) \<times> 's World" where
  "Grant l key t0 now w =
     (case backend_Get (backend l) (store w) key of
        ((state, err), b1) \<Rightarrow>
          (case err of
             Some e \<Rightarrow> ((Decision_zero, Some e), w\<lparr>store := b1\<rparr>)
           | None \<Rightarrow>
               let state1 = (case state of None \<Rightarrow> fresh_State (config l) t0 | Some s \<Rightarrow> s)
               in (case Strategy_Calculate (strategy l) state1 now of
                     ((decision, err2), state2) \<Rightarrow>
                       (case err2 of
                          Some e \<Rightarrow> ((Decision_zero, Some e), w\<lparr>store := b1\<rparr>)
                        | None \<Rightarrow>
                            (case backend_Set (backend l) b1 key state2 of
                               (err3, b2) \<Rightarrow>
                                 (case err3 of
                                    Some e \<Rightarrow> ((Decision_zero, Some e), w\<lparr>store := b2\<rparr>)
                                  | None \<Rightarrow>
                                      ((decision, None),
                                       \<lparr>store = b2,
                                        recorded =
                                          (if metrics l
                                           then recorded w @
                                                [RecordGrant key (Allowed decision) (Remaining decision)]
                                           else recorded w)\<rparr>)))))))"

definition Preview ::
  "'s Limiter \<Rightarrow> string \<Rightarrow> time \<Rightarrow> time \<Rightarrow> 's World \<Rightarrow> (Decision \<times> error option) \<times> 's World" where
  "Preview l key t0 now w =
     (case backend_Get (backend l) (store w) key of
        ((state, err), b1) \<Rightarrow>
          (case err of
             Some e \<Rightarrow> ((Decision_zero, Some e), w\<lparr>store := b1\<rparr>)
           | None \<Rightarrow>
               let state1 = (case state of None \<Rightarrow> fresh_State (config l) t0 | Some s \<Rightarrow> s)
               in (case Strategy_Preview (strategy l) state1 now of
                     ((decision, err2), state2) \<Rightarrow>
                       (case err2 of
                          Some e \<Rightarrow> ((Decision_zero, Some e), w\<lparr>store := b1\<rparr>)
                        | None \<Rightarrow>
                            ((decision, None),
                             \<lparr>store = b1,
                              recorded =
                                (if metrics l
                                 then recorded w @ [RecordPreview key (Remaining decision)]
                                 else recorded w)\<rparr>)))))"

definition Clear :: "'s Limiter \<Rightarrow> string \<Rightarrow> 's World \<Rightarrow> error option \<times> 's World" where
  "Clear l key w =
     (case backend_Delete (backend l) (store w) key of
        (err, b1) \<Rightarrow>
          (case err of
             Some e \<Rightarrow> (Some e, w\<lparr>store := b1\<rparr>)
           | None \<Rightarrow>
               (None,
                \<lparr>store = b1,
                 recorded = (if metrics l then recorded w @ [RecordClear key] else recorded w)\<rparr>)))"

section \<open>The in-memory backend (backend/memory)\<close>

type_synonym memory = "string \<rightharpoonup> State"

definition memory_Get :: "memory \<Rightarrow> string \<Rightarrow> (State option \<times> error option) \<times> memory" where
  "memory_Get m key = ((m key, None), m)"

definition memory_Set :: "memory \<Rightarrow> string \<Rightarrow> State \<Rightarrow> error option \<times> memory" where
  "memory_Set m key s = (None, m(key \<mapsto> s))"

definition memory_Delete :: "memory \<Rightarrow> string \<Rightarrow> error option \<times> memory" where
  "memory_Delete m key = (None, m(key := None))"

definition memory_Backend :: "memory Backend" where
  "memory_Backend =
     \<lparr>backend_Get = memory_Get, backend_Set = memory_Set, backend_Delete = memory_Delete\<rparr>"

text \<open>\<open>NewLimiter\<close> over the in-memory backend.\<close>

definition memory_Limiter :: "Strategy \<Rightarrow> Config \<Rightarrow> bool \<Rightarrow> memory Limiter" where
  "memory_Limiter st c m =
     \<lparr>backend = memory_Backend, strategy = st, config = c, metrics = m\<rparr>"

definition empty_World :: "memory World" where
  "empty_World = \<lparr>store = Map.empty, recorded = []\<rparr>"

section \<open>Callers: sequences of calls on one key\<close>

text \<open>Successive \<open>Grant\<close> calls, each with its two clock readings; the results in
  order.\<close>

fun Grants ::
  "'s Limiter \<Rightarrow> string \<Rightarrow> (time \<times> time) list \<Rightarrow> 's World \<Rightarrow> (Decision \<times> error option) list" where
  "Grants l key [] w = []"
| "Grants l key ((t0, now) # ts) w =
     (case Grant l key t0 now w of (r, w') \<Rightarrow> r # Grants l key ts w')"

text \<open>Successive \<open>Preview\<close> calls; the world they leave.\<close>

fun Previews :: "'s Limiter \<Rightarrow> string \<Rightarrow> (time \<times> time) list \<Rightarrow> 's World \<Rightarrow> 's World" where
  "Previews l key [] w = w"
| "Previews l key ((t0, now) # ts) w = Previews l key ts (snd (Preview l key t0 now w))"

section \<open>Configuration and state invariants of the specification\<close>

definition valid_Config :: "Config \<Rightarrow> bool" where
  "valid_Config c = (0 < Limit c \<and> 0 < Interval c \<and> 0 \<le> Burst c)"

definition credits_ok :: "Config \<Rightarrow> State \<Rightarrow> bool" where
  "credits_ok c s = (0 \<le> Tokens s \<and> Tokens s \<le> real_of_int (Burst c))"

text \<open>
  The side of that invariant which a strategy does not enforce by itself: the token
  bucket caps the credits at the burst but has no floor, the leaky bucket floors the
  level at zero but has no cap.
\<close>

fun credits_accepted :: "Strategy \<Rightarrow> State \<Rightarrow> bool" where
  "credits_accepted (TokenBucket c) s = (0 \<le> Tokens s)"
| "credits_accepted (LeakyBucket c) s = (Tokens s \<le> real_of_int (Burst c))"


section \<open>Configurations, backends and observations used in the examples\<close>

text \<open>The two scenarios of the specification, a slow token bucket (one credit every
  four seconds) and a leaky bucket draining one unit per millisecond.\<close>

definition scenario_tb :: Config where
  "scenario_tb = \<lparr>Limit = 10, Interval = 60000000000, Burst = 15\<rparr>"

definition scenario_lb :: Config where
  "scenario_lb = \<lparr>Limit = 60, Interval = 60000000000, Burst = 10\<rparr>"

definition slow_tb :: Config where
  "slow_tb = \<lparr>Limit = 1, Interval = 4000000000, Burst = 5\<rparr>"

definition busy_lb :: Config where
  "busy_lb = \<lparr>Limit = 1000, Interval = 1000000000, Burst = 10\<rparr>"

text \<open>A backend that counts in its state: \<open>Get\<close> fails while the counter is zero and
  finds nothing afterwards, \<open>Set\<close> and \<open>Delete\<close> always fail.\<close>

definition flaky_Backend :: "nat Backend" where
  "flaky_Backend =
     \<lparr>backend_Get = (\<lambda>b key. if b = 0 then ((None, Some ''get failed''), b)
                                else ((None, None), b)),
      backend_Set = (\<lambda>b key s. (Some ''set failed'', Suc b)),
      backend_Delete = (\<lambda>b key. (Some ''delete failed'', b))\<rparr>"

definition flaky_Limiter :: "nat Limiter" where
  "flaky_Limiter =
     \<lparr>backend = flaky_Backend, strategy = TokenBucket scenario_tb,
      config = scenario_tb, metrics = True\<rparr>"

text \<open>What a caller reads off a result: allowed, remaining and the error.\<close>

definition outcome :: "Decision \<times> error option \<Rightarrow> bool \<times> int \<times> error option" where
  "outcome r = (Allowed (fst r), Remaining (fst r), snd r)"

section \<open>Basic facts\<close>

lemmas eval_defs = tb_Calculate_def tb_Preview_def tb_newTokens_def tb_tokensToAdd_def
  lb_Calculate_def lb_Preview_def lb_newLevel_def leakRate_def
  Sub_def Add_def maxDuration_def minDuration_def maxInt64_def minInt64_def
  int64_of_float_def Let_def

lemma Sub_self: "Sub t t = 0"
  by (simp add: Sub_def maxDuration_def minDuration_def)

lemma Sub_nonneg: "u \<le> t \<Longrightarrow> 0 \<le> Sub t u"
  by (simp add: Sub_def maxDuration_def minDuration_def Let_def)

lemma Sub_neg: "t < u \<Longrightarrow> Sub t u < 0"
  by (simp add: Sub_def maxDuration_def minDuration_def Let_def)

lemma int64_of_float_nonneg:
  assumes "0 \<le> x" and "x \<le> real_of_int b" and "b < 2 ^ 62"
  shows "0 \<le> int64_of_float x"
proof -
  have "\<lfloor>x\<rfloor> \<le> b"
    using assms(2) by (simp add: floor_le_iff)
  moreover have "b \<le> maxInt64"
    using assms(3) by (simp add: maxInt64_def)
  ultimately have "\<lfloor>x\<rfloor> \<le> maxInt64"
    by (rule order_trans)
  moreover have "0 \<le> \<lfloor>x\<rfloor>"
    using assms(1) by simp
  ultimately show ?thesis
    using assms(1) by (simp add: int64_of_float_def minInt64_def Let_def)
qed

lemma int64_of_float_of_nat:
  "int n \<le> maxInt64 \<Longrightarrow> int64_of_float (real n) = int n"
  by (simp add: int64_of_float_def minInt64_def Let_def)

text \<open>Neither strategy ever returns an error, and \<open>Preview\<close> leaves the state it is
  handed as it was.\<close>

lemma Strategy_Calculate_no_error: "snd (fst (Strategy_Calculate st s now)) = None"
  by (cases st) (simp_all add: tb_Calculate_def lb_Calculate_def Let_def)

lemma Strategy_Preview_no_error: "snd (fst (Strategy_Preview st s now)) = None"
  by (cases st) (simp_all add: tb_Preview_def lb_Preview_def Let_def)

lemma Strategy_Preview_state: "snd (Strategy_Preview st s now) = s"
  by (cases st) (simp_all add: tb_Preview_def lb_Preview_def Let_def)

subsection \<open>The limiter over the in-memory backend\<close>

lemma Grant_memory:
  "Grant (memory_Limiter st c m) key t0 now w =
     ((fst (fst (Strategy_Calculate st
                   (case store w key of None \<Rightarrow> fresh_State c t0 | Some s \<Rightarrow> s) now)), None),
      \<lparr>store = (store w)(key \<mapsto> snd (Strategy_Calculate st
                   (case store w key of None \<Rightarrow> fresh_State c t0 | Some s \<Rightarrow> s) now)),
       recorded =
         (if m
          then recorded w @
            [RecordGrant key
               (Allowed (fst (fst (Strategy_Calculate st
                   (case store w key of None \<Rightarrow> fresh_State c t0 | Some s \<Rightarrow> s) now))))
               (Remaining (fst (fst (Strategy_Calculate st
                   (case store w key of None \<Rightarrow> fresh_State c t0 | Some s \<Rightarrow> s) now))))]
          else recorded w)\<rparr>)"
proof -
  obtain d e s' where r:
    "Strategy_Calculate st (case store w key of None \<Rightarrow> fresh_State c t0 | Some s \<Rightarrow> s) now
       = ((d, e), s')"
    by (metis surj_pair)
  have "e = None"
    using Strategy_Calculate_no_error[of st _ now] r by (metis fst_conv snd_conv)
  then show ?thesis
    using r by (cases "store w key")
      (simp_all add: Grant_def memory_Limiter_def memory_Backend_def memory_Get_def memory_Set_def)
qed

lemma Preview_memory:
  "Preview (memory_Limiter st c m) key t0 now w =
     ((fst (fst (Strategy_Preview st
                   (case store w key of None \<Rightarrow> fresh_State c t0 | Some s \<Rightarrow> s) now)), None),
      \<lparr>store = store w,
       recorded =
         (if m
          then recorded w @
            [RecordPreview key
               (Remaining (fst (fst (Strategy_Preview st
                   (case store w key of None \<Rightarrow> fresh_State c t0 | Some s \<Rightarrow> s) now))))]
          else recorded w)\<rparr>)"
proof -
  obtain d e s' where r:
    "Strategy_Preview st (case store w key of None \<Rightarrow> fresh_State c t0 | Some s \<Rightarrow> s) now
       = ((d, e), s')"
    by (metis surj_pair)
  have "e = None"
    using Strategy_Preview_no_error[of st _ now] r by (metis fst_conv snd_conv)
  then show ?thesis
    using r by (cases "store w key")
      (simp_all add: Preview_def memory_Limiter_def memory_Backend_def memory_Get_def)
qed

lemma Previews_memory_store:
  "store (Previews (memory_Limiter st c m) key ts w) = store w"
proof (induction ts arbitrary: w)
  case Nil
  show ?case by simp
next
  case (Cons p ts)
  obtain t0 now where p: "p = (t0, now)" by (cases p)
  show ?case by (simp add: p Cons.IH Preview_memory)
qed

lemma Preview_only_Get:
  "store (snd (Preview l key t0 now w)) = snd (backend_Get (backend l) (store w) key)"
  by (simp add: Preview_def Let_def split: prod.splits option.splits)

lemma Grants_memory_fresh:
  "store w key = None \<Longrightarrow>
   Grants (memory_Limiter st c m) key ((t0, now) # ts) w
     = Grants (memory_Limiter st c m) key ((t0, now) # ts)
         (w\<lparr>store := (store w)(key \<mapsto> fresh_State c t0)\<rparr>)"
  by (simp add: Grant_memory)


section \<open>Store errors\<close>

text \<open>
  Claim C10. Whenever the backend's \<open>Get\<close>, \<open>Set\<close> or \<open>Delete\<close> returns an error, the
  \<open>Grant\<close>, \<open>Preview\<close> or \<open>Clear\<close> call returns that very error, next to the zero
  \<open>Decision\<close> for \<open>Grant\<close> and \<open>Preview\<close>. The backend is left as the failing call left it
  (no further call, so no retry) and nothing is reported to the metrics. A \<open>Grant\<close>
  whose \<open>Set\<close> fails returns the error of \<open>Set\<close>, not the decision it computed.
\<close>

theorem C10_store_error_propagation:
  "(backend_Get (backend l) (store wg) key = ((sg, Some eg), bg) \<longrightarrow>
      Grant l key tc now wg = ((Decision_zero, Some eg), wg\<lparr>store := bg\<rparr>) \<and>
      Preview l key tc now wg = ((Decision_zero, Some eg), wg\<lparr>store := bg\<rparr>))
   \<and> (backend_Get (backend l) (store ws) key = ((ss, None), bs) \<and>
        backend_Set (backend l) bs key
          (snd (Strategy_Calculate (strategy l)
                 (case ss of None \<Rightarrow> fresh_State (config l) tc | Some s \<Rightarrow> s) now))
          = (Some es, bs') \<longrightarrow>
      Grant l key tc now ws = ((Decision_zero, Some es), ws\<lparr>store := bs'\<rparr>))
   \<and> (backend_Delete (backend l) (store wd) key = (Some ed, bd) \<longrightarrow>
      Clear l key wd = (Some ed, wd\<lparr>store := bd\<rparr>))"
proof (intro conjI impI)
  assume g: "backend_Get (backend l) (store wg) key = ((sg, Some eg), bg)"
  show "Grant l key tc now wg = ((Decision_zero, Some eg), wg\<lparr>store := bg\<rparr>)"
    by (simp add: Grant_def g)
  show "Preview l key tc now wg = ((Decision_zero, Some eg), wg\<lparr>store := bg\<rparr>)"
    by (simp add: Preview_def g)
next
  assume a: "backend_Get (backend l) (store ws) key = ((ss, None), bs) \<and>
        backend_Set (backend l) bs key
          (snd (Strategy_Calculate (strategy l)
                 (case ss of None \<Rightarrow> fresh_State (config l) tc | Some s \<Rightarrow> s) now))
          = (Some es, bs')"
  obtain d e2 s2 where r:
    "Strategy_Calculate (strategy l)
       (case ss of None \<Rightarrow> fresh_State (config l) tc | Some s \<Rightarrow> s) now = ((d, e2), s2)"
    by (metis surj_pair)
  have "e2 = None"
    using Strategy_Calculate_no_error[of "strategy l" _ now] r by (metis fst_conv snd_conv)
  with a r show "Grant l key tc now ws = ((Decision_zero, Some es), ws\<lparr>store := bs'\<rparr>)"
    by (simp add: Grant_def)
next
  assume "backend_Delete (backend l) (store wd) key = (Some ed, bd)"
  then show "Clear l key wd = (Some ed, wd\<lparr>store := bd\<rparr>)"
    by (simp add: Clear_def)
qed

theorem C10_store_error_propagation_witness:
  "backend_Get (backend flaky_Limiter) (store \<lparr>store = 0, recorded = []\<rparr>) ''k''
       = ((None, Some ''get failed''), 0)
   \<and> Grant flaky_Limiter ''k'' 0 0 \<lparr>store = 0, recorded = []\<rparr>
       = ((Decision_zero, Some ''get failed''), \<lparr>store = 0, recorded = []\<rparr>)
   \<and> Preview flaky_Limiter ''k'' 0 0 \<lparr>store = 0, recorded = []\<rparr>
       = ((Decision_zero, Some ''get failed''), \<lparr>store = 0, recorded = []\<rparr>)
   \<and> backend_Get (backend flaky_Limiter) (store \<lparr>store = 1, recorded = []\<rparr>) ''k''
       = ((None, None), 1)
   \<and> backend_Set (backend flaky_Limiter) 1 ''k''
        (snd (Strategy_Calculate (strategy flaky_Limiter)
               (fresh_State (config flaky_Limiter) 0) 0))
       = (Some ''set failed'', 2)
   \<and> Grant flaky_Limiter ''k'' 0 0 \<lparr>store = 1, recorded = []\<rparr>
       = ((Decision_zero, Some ''set failed''), \<lparr>store = 2, recorded = []\<rparr>)
   \<and> backend_Delete (backend flaky_Limiter) (store \<lparr>store = 1, recorded = []\<rparr>) ''k''
       = (Some ''delete failed'', 1)
   \<and> Clear flaky_Limiter ''k'' \<lparr>store = 1, recorded = []\<rparr>
       = (Some ''delete failed'', \<lparr>store = 1, recorded = []\<rparr>)"
  using C10_store_error_propagation
    [where l = flaky_Limiter and key = "''k''" and tc = 0 and now = 0
       and wg = "\<lparr>store = 0, recorded = []\<rparr>" and sg = None and eg = "''get failed''" and bg = 0
       and ws = "\<lparr>store = 1, recorded = []\<rparr>" and ss = None and bs = 1
       and es = "''set failed''" and bs' = 2
       and wd = "\<lparr>store = 1, recorded = []\<rparr>" and ed = "''delete failed''" and bd = 1]
  by (simp add: flaky_Limiter_def flaky_Backend_def)

section \<open>Preview\<close>

text \<open>
  Claim C3. \<open>Preview\<close> is free of side effects. For every limiter, key, stored state and
  time, \<open>Limiter.Preview\<close> calls only \<open>Get\<close> on the backend (it never writes), and the
  \<open>Preview\<close> of either strategy returns the state it was given unchanged. Over the
  in-memory backend the store after a \<open>Preview\<close> is the store before it, so any number
  of \<open>Preview\<close> calls, at any times, before a \<open>Grant\<close> leave the decision returned by
  that \<open>Grant\<close> (its remaining value in particular) and the state it writes exactly
  those of the \<open>Grant\<close> alone.
\<close>

theorem C3_Preview_side_effect_free:
  "store (snd (Preview l key tc now w)) = snd (backend_Get (backend l) (store w) key)
   \<and> snd (Strategy_Preview st s now) = s
   \<and> store (snd (Preview (memory_Limiter st c m) key tc now v)) = store v
   \<and> fst (Grant (memory_Limiter st c m) key gc gnow (Previews (memory_Limiter st c m) key ts v))
       = fst (Grant (memory_Limiter st c m) key gc gnow v)
   \<and> store (snd (Grant (memory_Limiter st c m) key gc gnow
                    (Previews (memory_Limiter st c m) key ts v)))
       = store (snd (Grant (memory_Limiter st c m) key gc gnow v))"
  by (simp add: Preview_only_Get Strategy_Preview_state Preview_memory Grant_memory
        Previews_memory_store)

section \<open>Token bucket: a denied request and the refill\<close>

text \<open>
  Claim C1 says that a denied \<open>Calculate\<close> at \<open>t1\<close> does not change the credits
  available at a later \<open>t2\<close>. The code behaves otherwise: the denied branch moves
  \<open>LastUpdate\<close> to \<open>t1\<close> and leaves \<open>Tokens\<close> as it was, so the refill earned up to
  \<open>t1\<close> is dropped. With one credit every four seconds and an empty bucket at time 0,
  a request at 4 s alone finds one credit and is allowed; after a denied request at
  2 s, the request at 4 s finds half a credit and is denied.
\<close>

theorem C1_denied_Calculate_drops_refill:
  "tb_newTokens slow_tb \<lparr>Tokens = 0, LastUpdate = 0, Created = 0\<rparr> 4000000000 = 1
   \<and> Allowed (fst (fst (tb_Calculate slow_tb \<lparr>Tokens = 0, LastUpdate = 0, Created = 0\<rparr> 4000000000)))
   \<and> \<not> Allowed (fst (fst (tb_Calculate slow_tb \<lparr>Tokens = 0, LastUpdate = 0, Created = 0\<rparr> 2000000000)))
   \<and> snd (tb_Calculate slow_tb \<lparr>Tokens = 0, LastUpdate = 0, Created = 0\<rparr> 2000000000)
       = \<lparr>Tokens = 0, LastUpdate = 2000000000, Created = 0\<rparr>
   \<and> tb_newTokens slow_tb
        (snd (tb_Calculate slow_tb \<lparr>Tokens = 0, LastUpdate = 0, Created = 0\<rparr> 2000000000))
        4000000000 = 1 / 2
   \<and> \<not> Allowed (fst (fst (tb_Calculate slow_tb
        (snd (tb_Calculate slow_tb \<lparr>Tokens = 0, LastUpdate = 0, Created = 0\<rparr> 2000000000))
        4000000000)))"
  by (simp add: eval_defs slow_tb_def)


section \<open>Credits stay within the bucket\<close>

lemma tb_newTokens_le_Burst: "tb_newTokens c s now \<le> real_of_int (Burst c)"
  by (simp add: tb_newTokens_def)

lemma lb_newLevel_nonneg: "0 \<le> lb_newLevel c s now"
  by (simp add: lb_newLevel_def Let_def)

lemma tb_Calculate_credits_ok:
  "credits_ok c s \<Longrightarrow> credits_ok c (snd (tb_Calculate c s now))"
  using tb_newTokens_le_Burst[of c s now]
  by (simp add: tb_Calculate_def credits_ok_def Let_def)

lemma lb_Calculate_credits_ok:
  "credits_ok c s \<Longrightarrow> credits_ok c (snd (lb_Calculate c s now))"
  using lb_newLevel_nonneg[of c s now]
  by (simp add: lb_Calculate_def credits_ok_def Let_def)

lemma Strategy_Calculate_credits_ok:
  "credits_ok (Strategy_config st) s \<Longrightarrow>
   credits_ok (Strategy_config st) (snd (Strategy_Calculate st s now))"
  by (cases st) (simp_all add: tb_Calculate_credits_ok lb_Calculate_credits_ok)

lemma fresh_State_credits_ok: "valid_Config c \<Longrightarrow> credits_ok c (fresh_State c t)"
  by (simp add: valid_Config_def credits_ok_def fresh_State_def)

text \<open>
  Claim C4. The bound on the credits is kept by every \<open>Grant\<close>, under both strategies
  (a strategy \<open>st\<close> built from the configuration \<open>c\<close>, with \<open>c\<close> valid): if the stored
  state has \<open>0 \<le> credits \<le> burst\<close> and \<open>now\<close> is not before its \<open>lastUpdate\<close>, the state
  that \<open>Calculate\<close> leaves, which \<open>Grant\<close> writes back under the key, has
  \<open>0 \<le> credits \<le> burst\<close> again; the state made for a key never seen has it as well.
\<close>

theorem C4_credits_bound_preserved:
  assumes "valid_Config c" and "Strategy_config st = c"
  shows "(credits_ok c s \<and> LastUpdate s \<le> now \<longrightarrow>
            credits_ok c (snd (Strategy_Calculate st s now)))
       \<and> credits_ok c (fresh_State c tc)
       \<and> ((case mem key of None \<Rightarrow> True | Some x \<Rightarrow> credits_ok c x \<and> LastUpdate x \<le> now) \<longrightarrow>
            (case store (snd (Grant (memory_Limiter st c m) key tc now
                                \<lparr>store = mem, recorded = evs\<rparr>)) key of
               None \<Rightarrow> False
             | Some x' \<Rightarrow> credits_ok c x'))"
proof -
  have f: "credits_ok c (fresh_State c tc)"
    using assms(1) by (rule fresh_State_credits_ok)
  have step: "credits_ok c x \<Longrightarrow> credits_ok c (snd (Strategy_Calculate st x now))" for x
    using Strategy_Calculate_credits_ok[of st x now] assms(2) by simp
  have g: "credits_ok c (case mem key of None \<Rightarrow> fresh_State c tc | Some x \<Rightarrow> x)"
    if "case mem key of None \<Rightarrow> True | Some x \<Rightarrow> credits_ok c x \<and> LastUpdate x \<le> now"
    using that f by (cases "mem key") simp_all
  show ?thesis
    using f step g by (simp add: Grant_memory)
qed

theorem C4_credits_bound_preserved_witness:
  "valid_Config scenario_tb
   \<and> Strategy_config (TokenBucket scenario_tb) = scenario_tb
   \<and> credits_ok scenario_tb \<lparr>Tokens = 3, LastUpdate = 0, Created = 0\<rparr>
   \<and> LastUpdate \<lparr>Tokens = 3, LastUpdate = 0, Created = 0\<rparr> \<le> 6000000000
   \<and> credits_ok scenario_tb
        (snd (Strategy_Calculate (TokenBucket scenario_tb)
                \<lparr>Tokens = 3, LastUpdate = 0, Created = 0\<rparr> 6000000000))
   \<and> credits_ok scenario_tb (fresh_State scenario_tb 0)
   \<and> (case store (snd (Grant (memory_Limiter (TokenBucket scenario_tb) scenario_tb True) ''k''
                          0 6000000000
                          \<lparr>store = [''k'' \<mapsto> \<lparr>Tokens = 3, LastUpdate = 0, Created = 0\<rparr>],
                           recorded = []\<rparr>)) ''k'' of
         None \<Rightarrow> False
       | Some x' \<Rightarrow> credits_ok scenario_tb x')"
  using C4_credits_bound_preserved
    [where c = scenario_tb and st = "TokenBucket scenario_tb"
       and s = "\<lparr>Tokens = 3, LastUpdate = 0, Created = 0\<rparr>" and now = 6000000000 and tc = 0
       and mem = "[''k'' \<mapsto> \<lparr>Tokens = 3, LastUpdate = 0, Created = 0\<rparr>]" and key = "''k''"
       and m = True and evs = "[]"]
  by (simp add: valid_Config_def credits_ok_def scenario_tb_def)

section \<open>The remaining value of a decision\<close>

lemma tb_tokensToAdd_nonneg:
  "valid_Config c \<Longrightarrow> LastUpdate s \<le> now \<Longrightarrow> 0 \<le> tb_tokensToAdd c s now"
  using Sub_nonneg[of "LastUpdate s" now]
  by (simp add: tb_tokensToAdd_def valid_Config_def Let_def)

lemma tb_newTokens_nonneg:
  "valid_Config c \<Longrightarrow> 0 \<le> Tokens s \<Longrightarrow> LastUpdate s \<le> now \<Longrightarrow> 0 \<le> tb_newTokens c s now"
  using tb_tokensToAdd_nonneg[of c s now]
  by (simp add: tb_newTokens_def valid_Config_def)

lemma lb_newLevel_le_Burst:
  assumes "valid_Config c" "Tokens s \<le> real_of_int (Burst c)" "LastUpdate s \<le> now"
  shows "lb_newLevel c s now \<le> real_of_int (Burst c)"
proof -
  have "0 \<le> leakRate c * real_of_int (Sub now (LastUpdate s))"
    using assms Sub_nonneg[of "LastUpdate s" now] by (simp add: leakRate_def valid_Config_def)
  then show ?thesis
    using assms by (simp add: lb_newLevel_def Let_def valid_Config_def)
qed

lemma tb_Remaining_nonneg:
  assumes "valid_Config c" "Burst c < 2 ^ 62" "0 \<le> Tokens s" "LastUpdate s \<le> now"
  shows "0 \<le> Remaining (fst (fst (tb_Calculate c s now)))"
    and "0 \<le> Remaining (fst (fst (tb_Preview c s now)))"
proof -
  have lo: "0 \<le> tb_newTokens c s now"
    using assms by (simp add: tb_newTokens_nonneg)
  have hi: "tb_newTokens c s now \<le> real_of_int (Burst c)"
    by (rule tb_newTokens_le_Burst)
  have p: "0 \<le> int64_of_float (tb_newTokens c s now)"
    using lo hi assms(2) by (rule int64_of_float_nonneg)
  have a: "0 \<le> int64_of_float (tb_newTokens c s now - 1)" if "1 \<le> tb_newTokens c s now"
  proof (rule int64_of_float_nonneg)
    show "0 \<le> tb_newTokens c s now - 1" using that by simp
    show "tb_newTokens c s now - 1 \<le> real_of_int (Burst c)" using hi by simp
    show "Burst c < 2 ^ 62" by (rule assms(2))
  qed
  show "0 \<le> Remaining (fst (fst (tb_Calculate c s now)))"
    using p a by (simp add: tb_Calculate_def Let_def)
  show "0 \<le> Remaining (fst (fst (tb_Preview c s now)))"
    using p by (simp add: tb_Preview_def Let_def)
qed

lemma lb_Remaining_nonneg:
  assumes "valid_Config c" "Burst c < 2 ^ 62" "Tokens s \<le> real_of_int (Burst c)"
    "LastUpdate s \<le> now"
  shows "0 \<le> Remaining (fst (fst (lb_Calculate c s now)))"
    and "0 \<le> Remaining (fst (fst (lb_Preview c s now)))"
proof -
  have lo: "0 \<le> lb_newLevel c s now"
    by (rule lb_newLevel_nonneg)
  have hi: "lb_newLevel c s now \<le> real_of_int (Burst c)"
    using assms by (simp add: lb_newLevel_le_Burst)
  have p: "0 \<le> int64_of_float (real_of_int (Burst c) - lb_newLevel c s now)"
  proof (rule int64_of_float_nonneg)
    show "0 \<le> real_of_int (Burst c) - lb_newLevel c s now" using hi by simp
    show "real_of_int (Burst c) - lb_newLevel c s now \<le> real_of_int (Burst c)" using lo by simp
    show "Burst c < 2 ^ 62" by (rule assms(2))
  qed
  have a: "0 \<le> int64_of_float (real_of_int (Burst c) - (lb_newLevel c s now + 1))"
    if "lb_newLevel c s now + 1 \<le> real_of_int (Burst c)"
  proof (rule int64_of_float_nonneg)
    show "0 \<le> real_of_int (Burst c) - (lb_newLevel c s now + 1)" using that by simp
    show "real_of_int (Burst c) - (lb_newLevel c s now + 1) \<le> real_of_int (Burst c)"
      using lo by simp
    show "Burst c < 2 ^ 62" by (rule assms(2))
  qed
  show "0 \<le> Remaining (fst (fst (lb_Calculate c s now)))"
    using p a by (simp add: lb_Calculate_def Let_def)
  show "0 \<le> Remaining (fst (fst (lb_Preview c s now)))"
    using p by (simp add: lb_Preview_def Let_def)
qed

lemma Strategy_Remaining_nonneg:
  assumes "valid_Config (Strategy_config st)" "Burst (Strategy_config st) < 2 ^ 62"
    "credits_accepted st s" "LastUpdate s \<le> now"
  shows "0 \<le> Remaining (fst (fst (Strategy_Calculate st s now)))"
    and "0 \<le> Remaining (fst (fst (Strategy_Preview st s now)))"
  using assms tb_Remaining_nonneg[of _ s now] lb_Remaining_nonneg[of _ s now]
  by (cases st; simp)+

lemma fresh_State_credits_accepted:
  "valid_Config c \<Longrightarrow> Strategy_config st = c \<Longrightarrow> credits_accepted st (fresh_State c t)"
  by (cases st) (simp_all add: fresh_State_def valid_Config_def)

text \<open>
  Claim C5 as stated, for every input state and every time, fails. Neither strategy
  rejects or repairs a state whose credits lie outside \<open>[0, burst]\<close>: the token bucket
  takes negative credits into \<open>min\<close> as they are, and the leaky bucket clamps its level
  at zero only, not at the ceiling. A token-bucket state with \<open>-5\<close> credits gives
  \<open>remaining = -5\<close>, from \<open>Grant\<close> and from \<open>Preview\<close>, and a leaky-bucket state at
  level 20 under a ceiling of 10 gives \<open>remaining = -10\<close>. A clock reading before
  \<open>lastUpdate\<close> does the same to a state within bounds: an empty token bucket
  last updated at 60 s and asked at 0 s gives \<open>remaining = -10\<close>.
\<close>

theorem C5_remaining_negative_counterexample:
  "\<not> 0 \<le> Remaining (fst (fst (Grant (memory_Limiter (TokenBucket scenario_tb) scenario_tb False)
        ''k'' 0 0
        \<lparr>store = [''k'' \<mapsto> \<lparr>Tokens = - 5, LastUpdate = 0, Created = 0\<rparr>], recorded = []\<rparr>)))
   \<and> Remaining (fst (fst (Preview (memory_Limiter (TokenBucket scenario_tb) scenario_tb False)
        ''k'' 0 0
        \<lparr>store = [''k'' \<mapsto> \<lparr>Tokens = - 5, LastUpdate = 0, Created = 0\<rparr>], recorded = []\<rparr>))) = - 5
   \<and> Remaining (fst (fst (Grant (memory_Limiter (LeakyBucket scenario_lb) scenario_lb False)
        ''k'' 0 0
        \<lparr>store = [''k'' \<mapsto> \<lparr>Tokens = 20, LastUpdate = 0, Created = 0\<rparr>], recorded = []\<rparr>))) = - 10
   \<and> Remaining (fst (fst (Grant (memory_Limiter (TokenBucket scenario_tb) scenario_tb False)
        ''k'' 0 0
        \<lparr>store = [''k'' \<mapsto> \<lparr>Tokens = 0, LastUpdate = 60000000000, Created = 0\<rparr>],
         recorded = []\<rparr>))) = - 10"
  by (simp add: Grant_memory Preview_memory scenario_tb_def scenario_lb_def eval_defs)

text \<open>
  Claim C5, amended. Every \<open>Decision\<close> returned by \<open>Grant\<close> or \<open>Preview\<close>, under
  either strategy, has \<open>remaining \<ge> 0\<close> when the configuration is valid, with a burst
  below \<open>2\<^sup>6\<^sup>2\<close>, and shared by the limiter and its strategy, the state read from
  the store has a \<open>lastUpdate\<close> not after \<open>now\<close> and credits on the right side of the
  bound its strategy does not enforce (\<open>credits \<ge> 0\<close> for the token bucket,
  \<open>credits \<le> burst\<close> for the leaky bucket), and, for a key without state, the clock
  reading that seeds the state is not after \<open>now\<close>. Credits above the burst are
  harmless to the token bucket and negative credits to the leaky bucket. This also
  covers the calls that fail: they return the zero \<open>Decision\<close>.
\<close>

theorem C5_remaining_nonneg_in_range:
  assumes "valid_Config (config l)" and "Burst (config l) < 2 ^ 62"
    and "Strategy_config (strategy l) = config l"
    and "tc \<le> now"
    and "case fst (fst (backend_Get (backend l) (store w) key)) of
           None \<Rightarrow> True
         | Some s \<Rightarrow> credits_accepted (strategy l) s \<and> LastUpdate s \<le> now"
  shows "0 \<le> Remaining (fst (fst (Grant l key tc now w)))
       \<and> 0 \<le> Remaining (fst (fst (Preview l key tc now w)))"
proof -
  obtain so e b where g: "backend_Get (backend l) (store w) key = ((so, e), b)"
    by (metis surj_pair)
  let ?s = "case so of None \<Rightarrow> fresh_State (config l) tc | Some s \<Rightarrow> s"
  have ok: "credits_accepted (strategy l) ?s \<and> LastUpdate ?s \<le> now"
    using assms g fresh_State_credits_accepted[of "config l" "strategy l" tc]
    by (cases so) (simp_all add: fresh_State_def)
  have c: "0 \<le> Remaining (fst (fst (Strategy_Calculate (strategy l) ?s now)))"
    using Strategy_Remaining_nonneg(1)[of "strategy l" ?s now] ok assms by simp
  have p: "0 \<le> Remaining (fst (fst (Strategy_Preview (strategy l) ?s now)))"
    using Strategy_Remaining_nonneg(2)[of "strategy l" ?s now] ok assms by simp
  have "0 \<le> Remaining (fst (fst (Grant l key tc now w)))"
    using c g by (auto simp add: Grant_def Decision_zero_def split: option.splits prod.splits)
  moreover have "0 \<le> Remaining (fst (fst (Preview l key tc now w)))"
    using p g by (auto simp add: Preview_def Decision_zero_def split: option.splits prod.splits)
  ultimately show ?thesis by simp
qed

theorem C5_remaining_nonneg_in_range_witness:
  "valid_Config (config (memory_Limiter (LeakyBucket scenario_lb) scenario_lb True))
   \<and> Burst (config (memory_Limiter (LeakyBucket scenario_lb) scenario_lb True)) < 2 ^ 62
   \<and> Strategy_config (strategy (memory_Limiter (LeakyBucket scenario_lb) scenario_lb True))
       = config (memory_Limiter (LeakyBucket scenario_lb) scenario_lb True)
   \<and> (0::int) \<le> 5000000000
   \<and> fst (fst (backend_Get (backend (memory_Limiter (LeakyBucket scenario_lb) scenario_lb True))
                 (store \<lparr>store = [''k'' \<mapsto> \<lparr>Tokens = - 1, LastUpdate = 0, Created = 0\<rparr>],
                         recorded = []\<rparr>) ''k''))
       = Some \<lparr>Tokens = - 1, LastUpdate = 0, Created = 0\<rparr>
   \<and> credits_accepted (strategy (memory_Limiter (LeakyBucket scenario_lb) scenario_lb True))
        \<lparr>Tokens = - 1, LastUpdate = 0, Created = 0\<rparr>
   \<and> 0 \<le> Remaining (fst (fst (Grant (memory_Limiter (LeakyBucket scenario_lb) scenario_lb True)
         ''k'' 0 5000000000
         \<lparr>store = [''k'' \<mapsto> \<lparr>Tokens = - 1, LastUpdate = 0, Created = 0\<rparr>], recorded = []\<rparr>)))
   \<and> 0 \<le> Remaining (fst (fst (Preview (memory_Limiter (LeakyBucket scenario_lb) scenario_lb True)
         ''k'' 0 5000000000
         \<lparr>store = [''k'' \<mapsto> \<lparr>Tokens = - 1, LastUpdate = 0, Created = 0\<rparr>], recorded = []\<rparr>)))"
  using C5_remaining_nonneg_in_range
    [where l = "memory_Limiter (LeakyBucket scenario_lb) scenario_lb True" and key = "''k''"
       and tc = 0 and now = 5000000000
       and w = "\<lparr>store = [''k'' \<mapsto> \<lparr>Tokens = - 1, LastUpdate = 0, Created = 0\<rparr>], recorded = []\<rparr>"]
  by (simp add: memory_Limiter_def memory_Backend_def memory_Get_def valid_Config_def
        scenario_lb_def)

section \<open>Token bucket: a clock that goes back\<close>

text \<open>
  Claim C6 as stated fails: \<open>Calculate\<close> does not clamp a negative elapsed time. With
  one credit every four seconds, a state holding one credit at \<open>lastUpdate = 4 s\<close> and a
  call at \<open>now = 2 s\<close>, the refill term is \<open>-1/2\<close>, half a credit is available and the
  request is denied; at \<open>now = lastUpdate\<close> the request is allowed.
\<close>

theorem C6_negative_elapsed_counterexample:
  "\<not> (fst (tb_Calculate slow_tb \<lparr>Tokens = 1, LastUpdate = 4000000000, Created = 0\<rparr> 2000000000)
       = fst (tb_Calculate slow_tb \<lparr>Tokens = 1, LastUpdate = 4000000000, Created = 0\<rparr>
                (LastUpdate \<lparr>Tokens = 1, LastUpdate = 4000000000, Created = 0\<rparr>)))
   \<and> tb_tokensToAdd slow_tb \<lparr>Tokens = 1, LastUpdate = 4000000000, Created = 0\<rparr> 2000000000
       = - (1 / 2)
   \<and> \<not> Allowed (fst (fst (tb_Calculate slow_tb
           \<lparr>Tokens = 1, LastUpdate = 4000000000, Created = 0\<rparr> 2000000000)))
   \<and> Allowed (fst (fst (tb_Calculate slow_tb
           \<lparr>Tokens = 1, LastUpdate = 4000000000, Created = 0\<rparr> 4000000000)))"
  by (simp add: eval_defs slow_tb_def)

text \<open>
  Claim C6, amended. In the token-bucket \<open>Calculate\<close> a negative elapsed time is not
  clamped to zero: with \<open>limit > 0\<close> and \<open>interval > 0\<close>, for every state and every
  \<open>now\<close> earlier than \<open>state.lastUpdate\<close> the refill term is strictly negative, where
  it is zero at \<open>now = state.lastUpdate\<close>, and the credits available at \<open>now\<close> are at
  most those available at \<open>state.lastUpdate\<close>. A request that is allowed at \<open>now\<close>
  is therefore allowed at \<open>state.lastUpdate\<close> too, and not the other way round, as the
  example above shows.
\<close>

theorem C6_negative_elapsed_not_clamped:
  assumes "0 < Limit c" and "0 < Interval c" and "now < LastUpdate s"
  shows "tb_tokensToAdd c s now < 0
     \<and> tb_tokensToAdd c s (LastUpdate s) = 0
     \<and> tb_newTokens c s now \<le> tb_newTokens c s (LastUpdate s)
     \<and> (Allowed (fst (fst (tb_Calculate c s now))) \<longrightarrow>
          Allowed (fst (fst (tb_Calculate c s (LastUpdate s)))))"
proof -
  have neg: "tb_tokensToAdd c s now < 0"
    using assms Sub_neg[of now "LastUpdate s"]
    by (simp add: tb_tokensToAdd_def Let_def mult_neg_pos divide_neg_pos)
  have zero: "tb_tokensToAdd c s (LastUpdate s) = 0"
    by (simp add: tb_tokensToAdd_def Sub_self)
  have le: "tb_newTokens c s now \<le> tb_newTokens c s (LastUpdate s)"
    using neg zero by (simp add: tb_newTokens_def min_def)
  have "Allowed (fst (fst (tb_Calculate c s (LastUpdate s))))"
    if "Allowed (fst (fst (tb_Calculate c s now)))"
    using that le by (simp add: tb_Calculate_def Let_def)
  then show ?thesis
    using neg zero le by simp
qed

theorem C6_negative_elapsed_not_clamped_witness:
  "0 < Limit slow_tb \<and> 0 < Interval slow_tb
   \<and> 2000000000 < LastUpdate \<lparr>Tokens = 3, LastUpdate = 4000000000, Created = 0\<rparr>
   \<and> tb_tokensToAdd slow_tb \<lparr>Tokens = 3, LastUpdate = 4000000000, Created = 0\<rparr> 2000000000 < 0
   \<and> tb_newTokens slow_tb \<lparr>Tokens = 3, LastUpdate = 4000000000, Created = 0\<rparr> 2000000000
       \<le> tb_newTokens slow_tb \<lparr>Tokens = 3, LastUpdate = 4000000000, Created = 0\<rparr>
           (LastUpdate \<lparr>Tokens = 3, LastUpdate = 4000000000, Created = 0\<rparr>)
   \<and> Allowed (fst (fst (tb_Calculate slow_tb
        \<lparr>Tokens = 3, LastUpdate = 4000000000, Created = 0\<rparr> 2000000000)))
   \<and> Allowed (fst (fst (tb_Calculate slow_tb
        \<lparr>Tokens = 3, LastUpdate = 4000000000, Created = 0\<rparr>
        (LastUpdate \<lparr>Tokens = 3, LastUpdate = 4000000000, Created = 0\<rparr>))))"
  using C6_negative_elapsed_not_clamped
    [where c = slow_tb and now = 2000000000
       and s = "\<lparr>Tokens = 3, LastUpdate = 4000000000, Created = 0\<rparr>"]
  by (simp add: slow_tb_def eval_defs)

section \<open>Scenarios\<close>

lemma tb_Calculate_zero_elapsed_allowed:
  assumes "Tokens s = real (Suc n)" "LastUpdate s = t" "real (Suc n) \<le> real_of_int (Burst c)"
    "Burst c \<le> maxInt64"
  shows "Allowed (fst (fst (tb_Calculate c s t)))"
    and "Remaining (fst (fst (tb_Calculate c s t))) = int n"
    and "snd (tb_Calculate c s t) = s\<lparr>Tokens := real n\<rparr>"
proof -
  have "int n \<le> maxInt64"
    using assms(3,4) by linarith
  then have r: "int64_of_float (real n) = int n"
    by (rule int64_of_float_of_nat)
  have nt: "tb_newTokens c s t = real (Suc n)"
    using assms by (simp add: tb_newTokens_def tb_tokensToAdd_def Sub_self min_def)
  show "Allowed (fst (fst (tb_Calculate c s t)))"
    by (simp add: tb_Calculate_def Let_def nt del: of_nat_Suc)
  show "Remaining (fst (fst (tb_Calculate c s t))) = int n"
    using r by (simp add: tb_Calculate_def Let_def nt)
  show "snd (tb_Calculate c s t) = s\<lparr>Tokens := real n\<rparr>"
    using assms(2) by (simp add: tb_Calculate_def Let_def nt)
qed

lemma tb_Calculate_zero_elapsed_denied:
  assumes "Tokens s = 0" "LastUpdate s = t" "0 \<le> Burst c"
  shows "\<not> Allowed (fst (fst (tb_Calculate c s t)))"
    and "Remaining (fst (fst (tb_Calculate c s t))) = 0"
    and "snd (tb_Calculate c s t) = s"
  using assms
  by (simp_all add: tb_Calculate_def tb_newTokens_def tb_tokensToAdd_def Sub_self Let_def
        int64_of_float_def minInt64_def maxInt64_def min_def)

text \<open>
  Back-to-back grants on a token bucket holding \<open>n\<close> whole credits: of \<open>j\<close> calls at the
  instant of the last update, the first \<open>min j n\<close> are allowed, counting the remaining
  credits down to zero, and the others are denied.
\<close>

lemma tb_Grants_zero_elapsed:
  assumes "store w key = Some s" "Tokens s = real n" "LastUpdate s = t"
    "real n \<le> real_of_int (Burst c)" "Burst c \<le> maxInt64"
  shows "map outcome (Grants (memory_Limiter (TokenBucket c) c m) key (replicate j (tc, t)) w)
       = map (\<lambda>i. (True, int n - 1 - int i, None)) [0..<min j n]
         @ replicate (j - n) (False, 0, None)"
  using assms
proof (induction j arbitrary: w s n)
  case 0
  show ?case by simp
next
  case (Suc j)
  let ?L = "memory_Limiter (TokenBucket c) c m"
  let ?w' = "snd (Grant ?L key tc t w)"
  show ?case
  proof (cases n)
    case 0
    have b: "0 \<le> Burst c"
      using Suc.prems(4) 0 by simp
    have st: "store ?w' key = Some s"
      using Suc.prems 0 tb_Calculate_zero_elapsed_denied(3)[of s t c] b
      by (simp add: Grant_memory)
    have hd: "outcome (fst (Grant ?L key tc t w)) = (False, 0, None)"
      using Suc.prems 0 tb_Calculate_zero_elapsed_denied[of s t c] b
      by (simp add: Grant_memory outcome_def)
    have "map outcome (Grants ?L key (replicate j (tc, t)) ?w')
        = map (\<lambda>i. (True, int n - 1 - int i, None)) [0..<min j n]
          @ replicate (j - n) (False, 0, None)"
      using Suc.IH[OF st] Suc.prems by simp
    then show ?thesis
      using hd 0 by (simp add: split_beta)
  next
    case (Suc n')
    have s': "snd (tb_Calculate c s t) = s\<lparr>Tokens := real n'\<rparr>"
      using tb_Calculate_zero_elapsed_allowed(3)[of s n' t c] Suc.prems Suc by simp
    have st: "store ?w' key = Some (s\<lparr>Tokens := real n'\<rparr>)"
      using Suc.prems s' by (simp add: Grant_memory)
    have hd: "outcome (fst (Grant ?L key tc t w)) = (True, int n', None)"
      using Suc.prems Suc tb_Calculate_zero_elapsed_allowed[of s n' t c]
      by (simp add: Grant_memory outcome_def)
    have ih: "map outcome (Grants ?L key (replicate j (tc, t)) ?w')
        = map (\<lambda>i. (True, int n' - 1 - int i, None)) [0..<min j n']
          @ replicate (j - n') (False, 0, None)"
      using Suc.IH[OF st, of n'] Suc.prems Suc by simp
    have "[0..<min (Suc j) (Suc n')] = 0 # map Suc [0..<min j n']"
      by (simp only: min_Suc_Suc upt_conv_Cons[OF zero_less_Suc] map_Suc_upt)
    then show ?thesis
      using hd ih Suc by (simp add: split_beta comp_def)
  qed
qed

text \<open>
  Claim C2. Token bucket with \<open>limit = 10\<close>, \<open>interval = 60 s\<close>, \<open>burst = 15\<close>: twenty
  \<open>Grant\<close> calls on a key never seen, all at one instant \<open>t\<close>, succeed as calls, allow
  exactly the first fifteen and deny the other five, and the fifteenth returns
  \<open>remaining = 0\<close>.
\<close>

theorem C2_token_bucket_burst_scenario:
  "map (\<lambda>r. Allowed (fst r))
       (Grants (memory_Limiter (TokenBucket scenario_tb) scenario_tb m) ''k''
          (replicate 20 (t, t)) \<lparr>store = mem(''k'' := None), recorded = evs\<rparr>)
     = replicate 15 True @ replicate 5 False
   \<and> map snd
       (Grants (memory_Limiter (TokenBucket scenario_tb) scenario_tb m) ''k''
          (replicate 20 (t, t)) \<lparr>store = mem(''k'' := None), recorded = evs\<rparr>)
     = replicate 20 None
   \<and> Remaining (fst (Grants (memory_Limiter (TokenBucket scenario_tb) scenario_tb m) ''k''
          (replicate 20 (t, t)) \<lparr>store = mem(''k'' := None), recorded = evs\<rparr> ! 14)) = 0"
proof -
  let ?L = "memory_Limiter (TokenBucket scenario_tb) scenario_tb m"
  let ?w = "\<lparr>store = mem(''k'' := None), recorded = evs\<rparr>"
  let ?w1 = "?w\<lparr>store := (store ?w)(''k'' \<mapsto> fresh_State scenario_tb t)\<rparr>"
  let ?rs = "Grants ?L ''k'' (replicate 20 (t, t)) ?w"
  have "replicate 20 (t, t) = (t, t) # replicate 19 (t, t)"
    by (simp add: eval_nat_numeral)
  then have "?rs = Grants ?L ''k'' (replicate 20 (t, t)) ?w1"
    using Grants_memory_fresh[of ?w "''k''" "TokenBucket scenario_tb" scenario_tb m t t
        "replicate 19 (t, t)"]
    by simp
  moreover have "map outcome (Grants ?L ''k'' (replicate 20 (t, t)) ?w1)
       = map (\<lambda>i. (True, int 15 - 1 - int i, None)) [0..<min 20 15]
         @ replicate (20 - 15) (False, 0, None)"
    by (rule tb_Grants_zero_elapsed[where s = "fresh_State scenario_tb t"])
       (simp_all add: fresh_State_def scenario_tb_def maxInt64_def)
  ultimately have o: "map outcome ?rs
       = map (\<lambda>i. (True, 14 - int i, None)) [0..<15] @ replicate 5 (False, 0, None)"
    by simp
  have a: "map (\<lambda>r. Allowed (fst r)) ?rs = map fst (map outcome ?rs)"
    by (simp add: outcome_def comp_def)
  have e: "map snd ?rs = map (\<lambda>x. snd (snd x)) (map outcome ?rs)"
    by (simp add: outcome_def comp_def)
  have len: "length ?rs = 20"
    using arg_cong[OF o, of length] by simp
  have "outcome (?rs ! 14) = map outcome ?rs ! 14"
    using len by simp
  also have "\<dots> = (True, 0, None)"
    unfolding o by (simp add: nth_append)
  finally have r: "Remaining (fst (?rs ! 14)) = 0"
    by (simp add: outcome_def)
  have a': "map (\<lambda>r. Allowed (fst r)) ?rs = replicate 15 True @ replicate 5 False"
    unfolding a o by (simp add: comp_def map_replicate_const)
  have e': "map snd ?rs = replicate 20 None"
    unfolding e o by (simp add: comp_def map_replicate_const replicate_add[symmetric])
  show ?thesis
    using a' e' r by simp
qed

text \<open>
  Claim C7. Leaky bucket with \<open>limit = 60\<close>, \<open>interval = 60 s\<close>, \<open>burst = 10\<close>, one unit
  drained per second: starting from a full bucket at \<open>t = 0\<close> (a key never seen and
  seeded at 0, or a stored state with 10 credits last updated at 0), the \<open>Grant\<close> at
  \<open>t = 0\<close> is denied and the \<open>Grant\<close> at \<open>t = 5 s\<close> is allowed with \<open>remaining = 4\<close>.
\<close>

theorem C7_leaky_bucket_scenario:
  "map (\<lambda>r. (Allowed (fst r), snd r))
       (Grants (memory_Limiter (LeakyBucket scenario_lb) scenario_lb m) key
          [(0, 0), (tc, 5000000000)]
          \<lparr>store = mem(key := None), recorded = evs\<rparr>)
     = [(False, None), (True, None)]
   \<and> Remaining (fst (Grants (memory_Limiter (LeakyBucket scenario_lb) scenario_lb m) key
          [(0, 0), (tc, 5000000000)]
          \<lparr>store = mem(key := None), recorded = evs\<rparr> ! 1)) = 4
   \<and> map (\<lambda>r. (Allowed (fst r), snd r))
       (Grants (memory_Limiter (LeakyBucket scenario_lb) scenario_lb m) key
          [(tc', 0), (tc, 5000000000)]
          \<lparr>store = mem(key \<mapsto> \<lparr>Tokens = 10, LastUpdate = 0, Created = cr\<rparr>), recorded = evs\<rparr>)
     = [(False, None), (True, None)]
   \<and> Remaining (fst (Grants (memory_Limiter (LeakyBucket scenario_lb) scenario_lb m) key
          [(tc', 0), (tc, 5000000000)]
          \<lparr>store = mem(key \<mapsto> \<lparr>Tokens = 10, LastUpdate = 0, Created = cr\<rparr>), recorded = evs\<rparr>
          ! 1)) = 4"
  by (simp add: Grant_memory fresh_State_def scenario_lb_def eval_defs)

section \<open>Leaky bucket: the first request for a key\<close>

text \<open>
  Claim C9 as stated, for every first \<open>Grant\<close>, fails: the seeded state carries the
  first clock reading of \<open>Grant\<close> as its \<open>LastUpdate\<close>, the strategy gets the second
  reading, and the bucket leaks in between. At 1000 units per second and a ceiling of
  10, two readings 2 ms apart leak two units, and the first \<open>Grant\<close> on a key never
  seen is allowed.
\<close>

theorem C9_first_Grant_counterexample:
  "Allowed (fst (fst (Grant (memory_Limiter (LeakyBucket busy_lb) busy_lb False) ''k''
                        0 2000000 empty_World)))
   \<and> snd (fst (Grant (memory_Limiter (LeakyBucket busy_lb) busy_lb False) ''k''
                        0 2000000 empty_World)) = None
   \<and> store empty_World ''k'' = None"
  by (simp add: Grant_memory fresh_State_def busy_lb_def empty_World_def eval_defs)

lemma leak_at_most_half:
  assumes "0 < Interval c" and "2 * (Sub now tc * Limit c) \<le> Interval c"
  shows "leakRate c * real_of_int (Sub now tc) \<le> 1 / 2"
proof -
  have "real_of_int (2 * (Sub now tc * Limit c)) \<le> real_of_int (Interval c)"
    using assms(2) by (simp only: of_int_le_iff)
  then have "2 * (real_of_int (Limit c) * real_of_int (Sub now tc)) \<le> real_of_int (Interval c)"
    by (simp add: mult.commute)
  then have "real_of_int (Limit c) * real_of_int (Sub now tc) / real_of_int (Interval c) \<le> 1 / 2"
    using assms(1) by (simp add: divide_le_eq)
  then show ?thesis
    by (simp add: leakRate_def)
qed

text \<open>
  Claim C9, amended. For every key never seen and every burst value up to \<open>2\<^sup>3\<^sup>1\<close>, a
  limiter with the leaky-bucket strategy (\<open>limit > 0\<close>, \<open>interval > 0\<close>) denies the first
  \<open>Grant\<close> whenever at most half a unit leaks between the two clock readings of that
  \<open>Grant\<close>, that is \<open>2 \<times> (now - seed) \<times> limit \<le> interval\<close>, as when both readings are
  the same instant: the state is seeded with \<open>credits = burst\<close> whatever the strategy,
  the leaky bucket reads it as a full bucket, and the test \<open>level + 1 \<le> burst\<close> fails.
\<close>

theorem C9_first_Grant_denied:
  assumes "0 < Limit c" and "0 < Interval c" and "Burst c \<le> 2 ^ 31"
    and "2 * (Sub now tc * Limit c) \<le> Interval c"
  shows "\<not> Allowed (fst (fst (Grant (memory_Limiter (LeakyBucket c) c m) key tc now
              \<lparr>store = mem(key := None), recorded = evs\<rparr>)))
     \<and> snd (fst (Grant (memory_Limiter (LeakyBucket c) c m) key tc now
              \<lparr>store = mem(key := None), recorded = evs\<rparr>)) = None
     \<and> Tokens (fresh_State c tc) = real_of_int (Burst c)"
  using leak_at_most_half[OF assms(2) assms(4)]
  by (simp add: Grant_memory fresh_State_def lb_Calculate_def lb_newLevel_def Let_def)

theorem C9_first_Grant_denied_witness:
  "0 < Limit scenario_lb \<and> 0 < Interval scenario_lb \<and> Burst scenario_lb \<le> 2 ^ 31
   \<and> 2 * (Sub 250000000 0 * Limit scenario_lb) \<le> Interval scenario_lb
   \<and> \<not> Allowed (fst (fst (Grant (memory_Limiter (LeakyBucket scenario_lb) scenario_lb True)
              ''k'' 0 250000000 \<lparr>store = Map.empty(''k'' := None), recorded = []\<rparr>)))
   \<and> snd (fst (Grant (memory_Limiter (LeakyBucket scenario_lb) scenario_lb True)
              ''k'' 0 250000000 \<lparr>store = Map.empty(''k'' := None), recorded = []\<rparr>)) = None"
  using C9_first_Grant_denied
    [where c = scenario_lb and now = 250000000 and tc = 0 and m = True
       and key = "''k''" and mem = Map.empty and evs = "[]"]
  by (simp add: scenario_lb_def Sub_def maxDuration_def minDuration_def)

end
